theory Spec2Isabelle
  imports Complex_Main
begin

section \<open>Colour values and numeric helpers\<close>

text \<open>
  The tint blender works on colours in hue/saturation/lightness/alpha form. The source
  type is the TypeScript interface \<open>HSLA\<close> with the four numeric fields \<open>h\<close>, \<open>s\<close>,
  \<open>l\<close> and \<open>a\<close>. JavaScript numbers are modelled as exact reals: every operation of the
  blender is then the mathematical one, and rounding of IEEE doubles is outside the model.
\<close>

record HSLA =
  h :: real
  s :: real
  l :: real
  a :: real

text \<open>
  The remainder operator \<open>%\<close> of JavaScript truncates the quotient toward zero, so the
  result carries the sign of the dividend: \<open>-2 % 360\<close> is \<open>-2\<close>, and \<open>362 % 360\<close> is \<open>2\<close>.
\<close>

definition js_rem :: "real \<Rightarrow> real \<Rightarrow> real" where
  "js_rem x y = x - y * of_int (if x / y < 0 then \<lceil>x / y\<rceil> else \<lfloor>x / y\<rfloor>)"

text \<open>
  The mathematical modulo, whose result lies in \<open>[0, y)\<close> for a positive \<open>y\<close>. This is
  the reading of the word "mod" in the description of the blender, not an operation of
  the source.
\<close>

definition math_mod :: "real \<Rightarrow> real \<Rightarrow> real" where
  "math_mod x y = x - y * of_int \<lfloor>x / y\<rfloor>"

text \<open>
  \<open>clamp(x, min, max)\<close> is imported by the source from its math utilities, which are not
  among the sources; it bounds \<open>x\<close> to the interval from \<open>min\<close> to \<open>max\<close>.
\<close>

definition clamp :: "real \<Rightarrow> real \<Rightarrow> real \<Rightarrow> real" where
  "clamp x lo hi = min hi (max lo x)"

section \<open>The tint blender\<close>

text \<open>
  \<open>applyTint\<close> as printed in the technical guide (COLOR_TINTING_TECHNICAL_GUIDE.md):
  it returns the colour unchanged for an empty tint colour or a strength that is not
  positive, adjusts the hue difference with two independent \<open>if\<close> statements, and clamps
  the new saturation and lightness to \<open>[0, 1]\<close>. The colour parser
  \<open>parseToHSLWithCache\<close> is not among the sources and is a parameter.
\<close>

definition applyTint :: "(string \<Rightarrow> HSLA) \<Rightarrow> HSLA \<Rightarrow> string \<Rightarrow> real \<Rightarrow> HSLA" where
  "applyTint parseToHSLWithCache hsl tintColor tintStrength =
     (if tintColor = [] \<or> tintStrength \<le> 0 then hsl
      else
        let tintRGB = parseToHSLWithCache tintColor;
            strength = min 100 (max 0 tintStrength) / 100;
            hueDiff0 = h tintRGB - h hsl;
            hueDiff1 = (if hueDiff0 > 180 then hueDiff0 - 360 else hueDiff0);
            hueDiff = (if hueDiff1 < - 180 then hueDiff1 + 360 else hueDiff1);
            newHue = js_rem (h hsl + hueDiff * strength * 0.6) 360;
            satDiff = s tintRGB - s hsl;
            newSat = s hsl + satDiff * strength * 0.5;
            lightDiff = l tintRGB - l hsl;
            newLight = l hsl + lightDiff * strength * 0.2
        in \<lparr>h = newHue, s = clamp newSat 0 1, l = clamp newLight 0 1, a = a hsl\<rparr>)"

text \<open>
  \<open>applyTint\<close> as printed in the implementation notes (BOOSTS_FEATURE_IMPLEMENTATION.md):
  no early return, the second hue adjustment is an \<open>else if\<close>, and saturation and
  lightness are returned without clamping.
\<close>

definition applyTint_boosts :: "(string \<Rightarrow> HSLA) \<Rightarrow> HSLA \<Rightarrow> string \<Rightarrow> real \<Rightarrow> HSLA" where
  "applyTint_boosts parseToHSLWithCache hsl tintColor tintStrength =
     (let tintRGB = parseToHSLWithCache tintColor;
          strength = min 100 (max 0 tintStrength) / 100;
          hueDiff0 = h tintRGB - h hsl;
          hueDiff = (if hueDiff0 > 180 then hueDiff0 - 360
                     else if hueDiff0 < - 180 then hueDiff0 + 360 else hueDiff0);
          newHue = js_rem (h hsl + hueDiff * strength * 0.6) 360;
          newSaturation = s hsl + (s tintRGB - s hsl) * strength * 0.5;
          newLightness = l hsl + (l tintRGB - l hsl) * strength * 0.2
      in \<lparr>h = newHue, s = newSaturation, l = newLightness, a = a hsl\<rparr>)"


text \<open>
  The blender as the design description words it, for comparison with the two source
  versions: the strength is divided by 100, the hue moves along the signed shortest
  angular difference with weight 0.6 and is reduced "mod 360", saturation and lightness
  move with weights 0.5 and 0.2, alpha passes through.
\<close>

definition shortest_hue_difference :: "real \<Rightarrow> real \<Rightarrow> real" where
  "shortest_hue_difference tintHue colorHue =
     (let d = tintHue - colorHue
      in if d > 180 then d - 360 else if d < - 180 then d + 360 else d)"

definition described_blend :: "HSLA \<Rightarrow> HSLA \<Rightarrow> real \<Rightarrow> HSLA" where
  "described_blend color tint tintStrength =
     (let sn = tintStrength / 100;
          d = shortest_hue_difference (h tint) (h color)
      in \<lparr>h = math_mod (h color + d * sn * 0.6) 360,
          s = s color + (s tint - s color) * sn * 0.5,
          l = l color + (l tint - l color) * sn * 0.2,
          a = a color\<rparr>)"

text \<open>
  A canonical colour, as the colour normalizer produces it: hue in \<open>[0, 360)\<close>,
  saturation, lightness and alpha in \<open>[0, 1]\<close>.
\<close>

definition canonical :: "HSLA \<Rightarrow> bool" where
  "canonical c \<longleftrightarrow>
     0 \<le> h c \<and> h c < 360 \<and> 0 \<le> s c \<and> s c \<le> 1 \<and> 0 \<le> l c \<and> l c \<le> 1 \<and> 0 \<le> a c \<and> a c \<le> 1"

section \<open>Theme configuration\<close>

text \<open>
  The theme options, with the fields of the API reference (\<open>DarkReader.enable\<close>).
  The mode is documented as \<open>0 | 1\<close>: filter mode and dark mode.
\<close>

datatype ThemeMode = FILTER | DARK

record Theme =
  mode :: ThemeMode
  brightness :: real
  contrast :: real
  grayscale :: real
  sepia :: real
  tintColor :: string
  tintStrength :: real
  darkSchemeBackgroundColor :: string
  darkSchemeTextColor :: string
  lightSchemeBackgroundColor :: string
  lightSchemeTextColor :: string
  scrollbarColor :: string
  selectionColor :: string
  useFont :: bool
  fontFamily :: string
  textStroke :: real
  styleSystemControls :: bool

text \<open>
  The configuration of the guide's first example (warm tint), every other option at its
  documented default and the font of the API reference's example.
\<close>

definition warm_theme :: Theme where
  "warm_theme =
     \<lparr>mode = DARK, brightness = 100, contrast = 90, grayscale = 0, sepia = 0,
      tintColor = ''#FF8C42'', tintStrength = 25,
      darkSchemeBackgroundColor = ''#181a1b'', darkSchemeTextColor = ''#e8e6e3'',
      lightSchemeBackgroundColor = ''#dcdad7'', lightSchemeTextColor = ''#181a1b'',
      scrollbarColor = [], selectionColor = ''auto'',
      useFont = False, fontFamily = ''Arial'', textStroke = 0,
      styleSystemControls = True\<rparr>"

section \<open>Colour modification with cache\<close>

text \<open>
  The tint step of \<open>modifyColorWithCache\<close>: the blender runs only for a non-empty tint
  colour and a positive strength. The two documents print two bodies of \<open>applyTint\<close>, so
  the blender is an argument here.
\<close>

definition tintStage :: "(HSLA \<Rightarrow> string \<Rightarrow> real \<Rightarrow> HSLA) \<Rightarrow> Theme \<Rightarrow> HSLA \<Rightarrow> HSLA" where
  "tintStage blend theme modified =
     (if tintColor theme \<noteq> [] \<and> tintStrength theme > 0
      then blend modified (tintColor theme) (tintStrength theme)
      else modified)"

text \<open>
  The guide prints \<open>modifyColorWithCache\<close> with its other steps elided and gives their
  order in the colour modification flow: parse to HSL, dark mode transform, tint, convert
  back to RGB, CSS filters (brightness, contrast, sepia), final colour. The elided steps
  are not among the sources and are parameters; \<open>'rgb\<close> is the colour type after
  conversion and \<open>'out\<close> the final colour.
\<close>

record ('rgb, 'out) ColorStages =
  parseToHSL :: "string \<Rightarrow> HSLA"
  modifyHSL :: "Theme \<Rightarrow> HSLA \<Rightarrow> HSLA"
  parseToHSLWithCache :: "string \<Rightarrow> HSLA"
  hslToRGB :: "HSLA \<Rightarrow> 'rgb"
  applyFilters :: "Theme \<Rightarrow> 'rgb \<Rightarrow> 'rgb"
  serialize :: "'rgb \<Rightarrow> 'out"

definition modifyColor :: "('rgb, 'out) ColorStages \<Rightarrow> Theme \<Rightarrow> string \<Rightarrow> 'out" where
  "modifyColor st theme color =
     (let hsl = parseToHSL st color;
          modified = modifyHSL st theme hsl;
          modified = tintStage (applyTint (parseToHSLWithCache st)) theme modified;
          rgb = hslToRGB st modified;
          filtered = applyFilters st theme rgb
      in serialize st filtered)"

text \<open>
  Modelled from the spec: the cache key and the cache lookup of \<open>modifyColorWithCache\<close>
  are missing from the sources, which only record that \<open>tintColor\<close> and \<open>tintStrength\<close>
  were added to the theme cache keys. The design description makes the fingerprint a
  deterministic serialization of the active theme configuration; here it is the list of
  the values of all its fields, in the order of the record.
\<close>

datatype FieldValue = Num real | Str string | Flag bool | ModeValue ThemeMode

definition getCacheId :: "Theme \<Rightarrow> FieldValue list" where
  "getCacheId theme =
     [ModeValue (mode theme), Num (brightness theme), Num (contrast theme),
      Num (grayscale theme), Num (sepia theme),
      Str (tintColor theme), Num (tintStrength theme),
      Str (darkSchemeBackgroundColor theme), Str (darkSchemeTextColor theme),
      Str (lightSchemeBackgroundColor theme), Str (lightSchemeTextColor theme),
      Str (scrollbarColor theme), Str (selectionColor theme),
      Flag (useFont theme), Str (fontFamily theme), Num (textStroke theme),
      Flag (styleSystemControls theme)]"

type_synonym 'out TransformCache = "(string \<times> FieldValue list) \<rightharpoonup> 'out"

text \<open>
  Modelled from the spec: \<open>lookup(colorString, fingerprint)\<close> returns the stored colour on
  a hit; on a miss the colour is computed, stored under the key and returned. The cache
  is passed in and returned updated.
\<close>

definition modifyColorWithCache ::
  "('rgb, 'out) ColorStages \<Rightarrow> Theme \<Rightarrow> string \<Rightarrow> 'out TransformCache \<Rightarrow> 'out \<times> 'out TransformCache" where
  "modifyColorWithCache st theme color cache =
     (case cache (color, getCacheId theme) of
        Some v \<Rightarrow> (v, cache)
      | None \<Rightarrow> (let v = modifyColor st theme color
                 in (v, cache((color, getCacheId theme) \<mapsto> v))))"

text \<open>A sequence of queries, each with the theme active at that moment, threads the cache.\<close>

fun run_queries ::
  "('rgb, 'out) ColorStages \<Rightarrow> (Theme \<times> string) list \<Rightarrow> 'out TransformCache \<Rightarrow> 'out TransformCache" where
  "run_queries st [] cache = cache"
| "run_queries st ((theme, color) # qs) cache =
     run_queries st qs (snd (modifyColorWithCache st theme color cache))"

text \<open>
  The order of the design description, for comparison: normalizer, then the whole filter
  pipeline (mode-dependent transform and the brightness, contrast, sepia and grayscale
  adjustments), then the tint blender, then serialization. It is stated for stages whose
  filters act on HSLA values, as the description has them.
\<close>

definition described_modifyColor :: "(HSLA, 'out) ColorStages \<Rightarrow> Theme \<Rightarrow> string \<Rightarrow> 'out" where
  "described_modifyColor st theme color =
     (let normalized = parseToHSL st color;
          filtered = applyFilters st theme (modifyHSL st theme normalized);
          tinted = tintStage (applyTint (parseToHSLWithCache st)) theme filtered
      in serialize st (hslToRGB st tinted))"

text \<open>
  Modelled from the spec: the filters themselves are missing from the sources. For a
  concrete run, brightness is the multiplicative scale on lightness of the design
  description, clamped back into \<open>[0, 1]\<close>; the other stages of this instance leave the
  colour as it is, every colour string parses to mid grey and every tint string to white.
\<close>

definition brightness_stages :: "(HSLA, HSLA) ColorStages" where
  "brightness_stages =
     \<lparr>parseToHSL = (\<lambda>_. \<lparr>h = 0, s = 0, l = 1 / 2, a = 1\<rparr>),
      modifyHSL = (\<lambda>_ c. c),
      parseToHSLWithCache = (\<lambda>_. \<lparr>h = 0, s = 0, l = 1, a = 1\<rparr>),
      hslToRGB = (\<lambda>c. c),
      applyFilters = (\<lambda>theme c. c\<lparr>l := clamp (l c * (brightness theme / 100)) 0 1\<rparr>),
      serialize = (\<lambda>c. c)\<rparr>"

section \<open>Theme settings controls\<close>














section \<open>Predicates used in the statements\<close>

text \<open>
  A cache is sound for the stages when every entry is the colour that a computation
  without cache gives for the entry's colour string and for every theme with the entry's
  fingerprint.
\<close>

definition cache_sound :: "('rgb, 'out) ColorStages \<Rightarrow> 'out TransformCache \<Rightarrow> bool" where
  "cache_sound st cache \<longleftrightarrow>
     (\<forall>color theme v. cache (color, getCacheId theme) = Some v \<longrightarrow> v = modifyColor st theme color)"

text \<open>
  Whether a hue lies on the short arc that runs from \<open>lo\<close> up through the 360/0 boundary
  to \<open>hi\<close>.
\<close>

definition on_arc_through_zero :: "real \<Rightarrow> real \<Rightarrow> real \<Rightarrow> bool" where
  "on_arc_through_zero lo hi x \<longleftrightarrow> (lo \<le> x \<and> x < 360) \<or> (0 \<le> x \<and> x \<le> hi)"

section \<open>Properties of the remainder and of blending\<close>

lemma js_rem_small: "\<bar>x\<bar> < y \<Longrightarrow> js_rem x y = x"
proof -
  assume b: "\<bar>x\<bar> < y"
  then have y: "0 < y" by linarith
  from b y have q: "- 1 < x / y" "x / y < 1"
    by (simp_all add: pos_less_divide_eq pos_divide_less_eq)
  show ?thesis
  proof (cases "x / y < 0")
    case True
    with q have "\<lceil>x / y\<rceil> = 0" by (simp add: ceiling_eq_iff)
    with True show ?thesis by (simp add: js_rem_def)
  next
    case False
    with q have "\<lfloor>x / y\<rfloor> = 0" by (simp add: floor_eq_iff)
    with False show ?thesis by (simp add: js_rem_def)
  qed
qed

lemma js_rem_nonneg: "0 \<le> x \<Longrightarrow> 0 < y \<Longrightarrow> js_rem x y = math_mod x y"
proof -
  assume "0 \<le> x" "0 < y"
  then have "\<not> x / y < 0" by (simp add: not_less)
  then show ?thesis by (simp add: js_rem_def math_mod_def)
qed

lemma js_rem_362: "js_rem 362 360 = 2"
  by (simp add: js_rem_def)

lemma clamp_id: "lo \<le> x \<Longrightarrow> x \<le> hi \<Longrightarrow> clamp x lo hi = x"
  by (simp add: clamp_def)

lemma unit_blend:
  fixes x y c :: real
  assumes "0 \<le> x" "x \<le> 1" "0 \<le> y" "y \<le> 1" "0 \<le> c" "c \<le> 1"
  shows "0 \<le> x + (y - x) * c" and "x + (y - x) * c \<le> 1"
proof -
  have e: "x + (y - x) * c = (1 - c) * x + c * y" by (simp add: algebra_simps)
  have "0 \<le> (1 - c) * x" "0 \<le> c * y" using assms by simp_all
  then show "0 \<le> x + (y - x) * c" unfolding e by linarith
  have "(1 - c) * x \<le> (1 - c) * 1" using assms by (intro mult_left_mono) simp_all
  then have "(1 - c) * x \<le> 1 - c" by simp
  moreover have "c * y \<le> c * 1" using assms by (intro mult_left_mono) simp_all
  then have "c * y \<le> c" by simp
  ultimately show "x + (y - x) * c \<le> 1" unfolding e by linarith
qed

lemma weighted_blend:
  fixes x y k w :: real
  assumes "0 \<le> x" "x \<le> 1" "0 \<le> y" "y \<le> 1" "0 \<le> w" "w \<le> 1"
  shows "0 \<le> x + (y - x) * (min 100 (max 0 k) / 100) * w"
    and "x + (y - x) * (min 100 (max 0 k) / 100) * w \<le> 1"
proof -
  let ?c = "(min 100 (max 0 k) / 100) * w"
  have c0: "0 \<le> ?c" using assms by simp
  have "?c \<le> 1 * 1" using assms by (intro mult_mono) simp_all
  then have c1: "?c \<le> 1" by simp
  have e: "x + (y - x) * (min 100 (max 0 k) / 100) * w = x + (y - x) * ?c"
    by (simp add: algebra_simps)
  show "0 \<le> x + (y - x) * (min 100 (max 0 k) / 100) * w"
    unfolding e using assms c0 c1 by (intro unit_blend)
  show "x + (y - x) * (min 100 (max 0 k) / 100) * w \<le> 1"
    unfolding e using assms c0 c1 by (intro unit_blend)
qed

section \<open>The two versions of the blender\<close>

lemma applyTint_boosts_zero:
  assumes "k \<le> 0" "\<bar>h c\<bar> < 360"
  shows "applyTint_boosts parse c tc k = c"
proof -
  from assms(1) have "min 100 (max 0 k) = 0" by simp
  then show ?thesis
    using assms(2) by (simp add: applyTint_boosts_def Let_def js_rem_small)
qed

lemma applyTint_variants_positive:
  assumes "0 < k" "tc \<noteq> []"
    and "0 \<le> s c" "s c \<le> 1" "0 \<le> l c" "l c \<le> 1"
    and "0 \<le> s (parse tc)" "s (parse tc) \<le> 1" "0 \<le> l (parse tc)" "l (parse tc) \<le> 1"
  shows "applyTint parse c tc k = applyTint_boosts parse c tc k"
proof -
  have cs: "clamp (s c + (s (parse tc) - s c) * (min 100 (max 0 k) / 100) * 0.5) 0 1
          = s c + (s (parse tc) - s c) * (min 100 (max 0 k) / 100) * 0.5"
    using assms by (intro clamp_id weighted_blend) simp_all
  have cl: "clamp (l c + (l (parse tc) - l c) * (min 100 (max 0 k) / 100) * 0.2) 0 1
          = l c + (l (parse tc) - l c) * (min 100 (max 0 k) / 100) * 0.2"
    using assms by (intro clamp_id weighted_blend) simp_all
  show ?thesis
    using assms(1,2) cs cl by (simp add: applyTint_def applyTint_boosts_def Let_def)
qed

lemma applyTint_variants_agree:
  assumes "0 \<le> s c" "s c \<le> 1" "0 \<le> l c" "l c \<le> 1"
    and "0 \<le> s (parse tc)" "s (parse tc) \<le> 1" "0 \<le> l (parse tc)" "l (parse tc) \<le> 1"
    and "tc \<noteq> []" and "0 < k \<or> \<bar>h c\<bar> < 360"
  shows "applyTint parse c tc k = applyTint_boosts parse c tc k"
proof (cases "0 < k")
  case True
  then show ?thesis using assms by (intro applyTint_variants_positive)
next
  case False
  with assms(10) have hc: "\<bar>h c\<bar> < 360" by simp
  from False have "applyTint parse c tc k = c" by (simp add: applyTint_def)
  moreover from False hc have "applyTint_boosts parse c tc k = c"
    by (intro applyTint_boosts_zero) simp_all
  ultimately show ?thesis by simp
qed

text \<open>
  Where the blended hue sum is not negative, JavaScript's remainder is the mathematical
  modulo and both source versions compute the described blend on canonical colours.
\<close>

lemma applyTint_boosts_described:
  assumes "0 \<le> k" "k \<le> 100"
    and "0 \<le> h c + shortest_hue_difference (h (parse tc)) (h c) * (k / 100) * 0.6"
  shows "applyTint_boosts parse c tc k = described_blend c (parse tc) k"
proof -
  from assms(1,2) have k: "min 100 (max 0 k) = k" by simp
  have d: "(if h (parse tc) - h c > 180 then h (parse tc) - h c - 360
            else if h (parse tc) - h c < - 180 then h (parse tc) - h c + 360
            else h (parse tc) - h c) = shortest_hue_difference (h (parse tc)) (h c)"
    by (simp add: shortest_hue_difference_def Let_def)
  show ?thesis
    unfolding applyTint_boosts_def described_blend_def Let_def k d
    using assms(3) by (simp add: js_rem_nonneg)
qed

lemma applyTint_described:
  assumes "canonical c" "canonical (parse tc)" "tc \<noteq> []" "0 \<le> k" "k \<le> 100"
    and "0 \<le> h c + shortest_hue_difference (h (parse tc)) (h c) * (k / 100) * 0.6"
  shows "applyTint parse c tc k = described_blend c (parse tc) k"
proof -
  from assms(1) have "\<bar>h c\<bar> < 360" by (simp add: canonical_def)
  then have "applyTint parse c tc k = applyTint_boosts parse c tc k"
    using assms(1,2,3) by (intro applyTint_variants_agree) (simp_all add: canonical_def)
  then show ?thesis using assms(4,5,6) by (simp add: applyTint_boosts_described)
qed
section \<open>The blending formula\<close>

text \<open>
  C1. The description gives the new hue as \<open>(colorHue + d * s * 0.6) mod 360\<close>, with the
  weights 0.6, 0.5 and 0.2. The sources reduce the hue with JavaScript's \<open>% 360\<close>. For a
  colour at hue 10, a tint at hue 350 and strength 100 both source versions return the
  hue \<open>-2\<close>, while the described blend has hue 358; saturation, lightness and alpha agree.
\<close>

theorem applyTint_hue_differs_from_described:
  "h (applyTint (\<lambda>_. \<lparr>h = 350, s = 1, l = 1 / 2, a = 1\<rparr>)
        \<lparr>h = 10, s = 1 / 2, l = 1 / 2, a = 1\<rparr> ''hsl(350, 100%, 50%)'' 100) = - 2
   \<and> h (applyTint_boosts (\<lambda>_. \<lparr>h = 350, s = 1, l = 1 / 2, a = 1\<rparr>)
        \<lparr>h = 10, s = 1 / 2, l = 1 / 2, a = 1\<rparr> ''hsl(350, 100%, 50%)'' 100) = - 2
   \<and> described_blend \<lparr>h = 10, s = 1 / 2, l = 1 / 2, a = 1\<rparr>
        \<lparr>h = 350, s = 1, l = 1 / 2, a = 1\<rparr> 100
      = \<lparr>h = 358, s = 3 / 4, l = 1 / 2, a = 1\<rparr>
   \<and> applyTint (\<lambda>_. \<lparr>h = 350, s = 1, l = 1 / 2, a = 1\<rparr>)
        \<lparr>h = 10, s = 1 / 2, l = 1 / 2, a = 1\<rparr> ''hsl(350, 100%, 50%)'' 100
      = \<lparr>h = - 2, s = 3 / 4, l = 1 / 2, a = 1\<rparr>"
  by (simp add: applyTint_def applyTint_boosts_def described_blend_def
      shortest_hue_difference_def Let_def js_rem_small math_mod_def clamp_def)

text \<open>
  C2. For every colour at hue 350 and every tint at hue 10, blending at strength 100
  gives the hue 2: the hue has moved forward across the 360/0 boundary, lies on the short
  arc from 350 through 0 to 10, and not on the long way round between 10 and 350.
\<close>

theorem hue_wraparound_350_to_10:
  assumes "h c = 350" and "h (parse tc) = 10" and "tc \<noteq> []"
  shows "h (applyTint parse c tc 100) = 2
     \<and> h (applyTint_boosts parse c tc 100) = 2
     \<and> on_arc_through_zero 350 10 (h (applyTint parse c tc 100))
     \<and> on_arc_through_zero 350 10 (h (applyTint_boosts parse c tc 100))
     \<and> \<not> (10 < h (applyTint parse c tc 100) \<and> h (applyTint parse c tc 100) < 350)
     \<and> \<not> (10 < h (applyTint_boosts parse c tc 100) \<and> h (applyTint_boosts parse c tc 100) < 350)"
proof -
  have g: "h (applyTint parse c tc 100) = 2"
    using assms by (simp add: applyTint_def Let_def js_rem_362)
  have b: "h (applyTint_boosts parse c tc 100) = 2"
    using assms by (simp add: applyTint_boosts_def Let_def js_rem_362)
  show ?thesis unfolding g b by (simp add: on_arc_through_zero_def)
qed

theorem hue_wraparound_350_to_10_witness:
  "h \<lparr>h = 350, s = 1 / 2, l = 1 / 2, a = 1\<rparr> = 350
   \<and> h ((\<lambda>_. \<lparr>h = 10, s = 1, l = 1 / 2, a = 1\<rparr>) ''hsl(10, 100%, 50%)'') = 10
   \<and> ''hsl(10, 100%, 50%)'' \<noteq> []
   \<and> h (applyTint (\<lambda>_. \<lparr>h = 10, s = 1, l = 1 / 2, a = 1\<rparr>)
          \<lparr>h = 350, s = 1 / 2, l = 1 / 2, a = 1\<rparr> ''hsl(10, 100%, 50%)'' 100) = 2"
  using hue_wraparound_350_to_10
    [of "\<lparr>h = 350, s = 1 / 2, l = 1 / 2, a = 1\<rparr>"
        "\<lambda>_. \<lparr>h = 10, s = 1, l = 1 / 2, a = 1\<rparr>" "''hsl(10, 100%, 50%)''"]
  by simp

text \<open>
  C7. For every strength, inside or outside \<open>[0, 100]\<close>, both versions of the blender
  return what they return for the strength clamped into \<open>[0, 100]\<close>. The blender is a
  total function: no strength makes it fail.
\<close>

theorem applyTint_clamps_strength:
  "applyTint parse c tc k = applyTint parse c tc (min 100 (max 0 k))
   \<and> applyTint_boosts parse c tc k = applyTint_boosts parse c tc (min 100 (max 0 k))"
  by (simp add: applyTint_def applyTint_boosts_def Let_def)

text \<open>
  C8. For every colour, tint colour and strength, the alpha of the blended colour is the
  alpha of the input colour, in both versions of the blender.
\<close>

theorem applyTint_keeps_alpha:
  "a (applyTint parse c tc k) = a c \<and> a (applyTint_boosts parse c tc k) = a c"
  by (simp add: applyTint_def applyTint_boosts_def Let_def)

text \<open>
  C9. For every colour and tint colour whose saturation and lightness lie in \<open>[0, 1]\<close>
  and every strength, the blended saturation and lightness lie in \<open>[0, 1]\<close>, so the
  clamps change nothing: behind the guard of the colour modification the clamping and
  the non-clamping version return the same colour for every tint colour string and every
  strength, and called directly they return the same colour for every colour with a hue
  in \<open>[0, 360)\<close> and every tint colour that is present.
\<close>

theorem applyTint_clamping_redundant:
  assumes "0 \<le> s c" "s c \<le> 1" "0 \<le> l c" "l c \<le> 1"
    and "0 \<le> s (parse tc)" "s (parse tc) \<le> 1" "0 \<le> l (parse tc)" "l (parse tc) \<le> 1"
  shows "0 \<le> s (applyTint_boosts parse c tc k) \<and> s (applyTint_boosts parse c tc k) \<le> 1
     \<and> 0 \<le> l (applyTint_boosts parse c tc k) \<and> l (applyTint_boosts parse c tc k) \<le> 1
     \<and> tintStage (applyTint parse) (theme\<lparr>tintColor := tc, tintStrength := k\<rparr>) c
         = tintStage (applyTint_boosts parse) (theme\<lparr>tintColor := tc, tintStrength := k\<rparr>) c
     \<and> (tc \<noteq> [] \<and> 0 \<le> h c \<and> h c < 360 \<longrightarrow>
          applyTint parse c tc k = applyTint_boosts parse c tc k)"
proof -
  have "0 \<le> s c + (s (parse tc) - s c) * (min 100 (max 0 k) / 100) * 0.5"
       "s c + (s (parse tc) - s c) * (min 100 (max 0 k) / 100) * 0.5 \<le> 1"
       "0 \<le> l c + (l (parse tc) - l c) * (min 100 (max 0 k) / 100) * 0.2"
       "l c + (l (parse tc) - l c) * (min 100 (max 0 k) / 100) * 0.2 \<le> 1"
    using assms by (intro weighted_blend; simp)+
  then have bounds:
    "0 \<le> s (applyTint_boosts parse c tc k) \<and> s (applyTint_boosts parse c tc k) \<le> 1
     \<and> 0 \<le> l (applyTint_boosts parse c tc k) \<and> l (applyTint_boosts parse c tc k) \<le> 1"
    by (simp add: applyTint_boosts_def Let_def)
  have guarded: "tintStage (applyTint parse) (theme\<lparr>tintColor := tc, tintStrength := k\<rparr>) c
      = tintStage (applyTint_boosts parse) (theme\<lparr>tintColor := tc, tintStrength := k\<rparr>) c"
  proof (cases "tc \<noteq> [] \<and> 0 < k")
    case True
    then have "applyTint parse c tc k = applyTint_boosts parse c tc k"
      using assms by (intro applyTint_variants_positive) simp_all
    then show ?thesis by (simp add: tintStage_def)
  next
    case False
    then show ?thesis by (auto simp: tintStage_def)
  qed
  have direct: "tc \<noteq> [] \<and> 0 \<le> h c \<and> h c < 360 \<longrightarrow>
      applyTint parse c tc k = applyTint_boosts parse c tc k"
  proof
    assume p: "tc \<noteq> [] \<and> 0 \<le> h c \<and> h c < 360"
    then have "0 < k \<or> \<bar>h c\<bar> < 360" by simp
    with p show "applyTint parse c tc k = applyTint_boosts parse c tc k"
      using assms by (intro applyTint_variants_agree) simp_all
  qed
  from bounds guarded direct show ?thesis by simp
qed

theorem applyTint_clamping_redundant_witness:
  "s (applyTint_boosts (\<lambda>_. \<lparr>h = 20, s = 1, l = 1, a = 1\<rparr>)
       \<lparr>h = 200, s = 0, l = 0, a = 1 / 2\<rparr> ''hsl(20, 100%, 100%)'' 250) = 1 / 2
   \<and> l (applyTint_boosts (\<lambda>_. \<lparr>h = 20, s = 1, l = 1, a = 1\<rparr>)
       \<lparr>h = 200, s = 0, l = 0, a = 1 / 2\<rparr> ''hsl(20, 100%, 100%)'' 250) = 1 / 5
   \<and> tintStage (applyTint (\<lambda>_. \<lparr>h = 20, s = 1, l = 1, a = 1\<rparr>))
       (warm_theme\<lparr>tintColor := ''hsl(20, 100%, 100%)'', tintStrength := 250\<rparr>)
       \<lparr>h = 200, s = 0, l = 0, a = 1 / 2\<rparr>
     = tintStage (applyTint_boosts (\<lambda>_. \<lparr>h = 20, s = 1, l = 1, a = 1\<rparr>))
       (warm_theme\<lparr>tintColor := ''hsl(20, 100%, 100%)'', tintStrength := 250\<rparr>)
       \<lparr>h = 200, s = 0, l = 0, a = 1 / 2\<rparr>
   \<and> ''hsl(20, 100%, 100%)'' \<noteq> [] \<and> (0::real) \<le> 200 \<and> (200::real) < 360
   \<and> applyTint (\<lambda>_. \<lparr>h = 20, s = 1, l = 1, a = 1\<rparr>)
       \<lparr>h = 200, s = 0, l = 0, a = 1 / 2\<rparr> ''hsl(20, 100%, 100%)'' 250
     = applyTint_boosts (\<lambda>_. \<lparr>h = 20, s = 1, l = 1, a = 1\<rparr>)
       \<lparr>h = 200, s = 0, l = 0, a = 1 / 2\<rparr> ''hsl(20, 100%, 100%)'' 250"
  using applyTint_clamping_redundant
    [where c = "\<lparr>h = 200, s = 0, l = 0, a = 1 / 2\<rparr>"
       and parse = "\<lambda>_. \<lparr>h = 20, s = 1, l = 1, a = 1\<rparr>"
       and tc = "''hsl(20, 100%, 100%)''" and k = 250 and theme = warm_theme]
  by (simp add: applyTint_boosts_def Let_def)

text \<open>
  C10. A canonical colour at hue 10, blended toward a canonical tint at hue 350 at
  strength 100, comes back with the hue \<open>-2\<close>, which is outside \<open>[0, 360)\<close>: the result is
  not canonical, in either version of the blender.
\<close>

theorem applyTint_negative_hue:
  "canonical \<lparr>h = 10, s = 1 / 2, l = 1 / 2, a = 1\<rparr>
   \<and> canonical \<lparr>h = 350, s = 1 / 2, l = 1 / 2, a = 1\<rparr>
   \<and> h (applyTint (\<lambda>_. \<lparr>h = 350, s = 1 / 2, l = 1 / 2, a = 1\<rparr>)
          \<lparr>h = 10, s = 1 / 2, l = 1 / 2, a = 1\<rparr> ''hsl(350, 50%, 50%)'' 100) = - 2
   \<and> h (applyTint_boosts (\<lambda>_. \<lparr>h = 350, s = 1 / 2, l = 1 / 2, a = 1\<rparr>)
          \<lparr>h = 10, s = 1 / 2, l = 1 / 2, a = 1\<rparr> ''hsl(350, 50%, 50%)'' 100) = - 2
   \<and> \<not> canonical (applyTint (\<lambda>_. \<lparr>h = 350, s = 1 / 2, l = 1 / 2, a = 1\<rparr>)
          \<lparr>h = 10, s = 1 / 2, l = 1 / 2, a = 1\<rparr> ''hsl(350, 50%, 50%)'' 100)
   \<and> \<not> canonical (applyTint_boosts (\<lambda>_. \<lparr>h = 350, s = 1 / 2, l = 1 / 2, a = 1\<rparr>)
          \<lparr>h = 10, s = 1 / 2, l = 1 / 2, a = 1\<rparr> ''hsl(350, 50%, 50%)'' 100)"
  by (simp add: applyTint_def applyTint_boosts_def canonical_def Let_def js_rem_small clamp_def)
section \<open>The tint step and the order of the stages\<close>

text \<open>
  C3. For every theme whose tint strength is 0 or whose tint colour is empty, the tint
  step returns the colour it is given, whatever the other tint option is and whichever
  blender it would call; so does the guide's \<open>applyTint\<close> itself, and the whole colour
  modification is then the one without a tint step.
\<close>

theorem tint_identity_at_zero_strength_or_empty_color:
  assumes "tintStrength theme = 0 \<or> tintColor theme = []"
  shows "tintStage blend theme modified = modified
     \<and> applyTint parse modified (tintColor theme) (tintStrength theme) = modified
     \<and> modifyColor st theme color
         = serialize st (applyFilters st theme (hslToRGB st (modifyHSL st theme (parseToHSL st color))))"
  using assms by (auto simp: tintStage_def applyTint_def modifyColor_def Let_def)

theorem tint_identity_at_zero_strength_or_empty_color_witness:
  "(tintStrength (warm_theme\<lparr>tintStrength := 0\<rparr>) = 0 \<or> tintColor (warm_theme\<lparr>tintStrength := 0\<rparr>) = [])
   \<and> tintStage (applyTint_boosts (\<lambda>_. \<lparr>h = 20, s = 1, l = 1, a = 1\<rparr>)) (warm_theme\<lparr>tintStrength := 0\<rparr>)
        \<lparr>h = 200, s = 0, l = 0, a = 1\<rparr> = \<lparr>h = 200, s = 0, l = 0, a = 1\<rparr>
   \<and> (tintStrength (warm_theme\<lparr>tintColor := []\<rparr>) = 0 \<or> tintColor (warm_theme\<lparr>tintColor := []\<rparr>) = [])
   \<and> tintStage (applyTint_boosts (\<lambda>_. \<lparr>h = 20, s = 1, l = 1, a = 1\<rparr>)) (warm_theme\<lparr>tintColor := []\<rparr>)
        \<lparr>h = 200, s = 0, l = 0, a = 1\<rparr> = \<lparr>h = 200, s = 0, l = 0, a = 1\<rparr>"
proof -
  have z: "tintStrength (warm_theme\<lparr>tintStrength := 0\<rparr>) = 0 \<or> tintColor (warm_theme\<lparr>tintStrength := 0\<rparr>) = []"
    by simp
  have e: "tintStrength (warm_theme\<lparr>tintColor := []\<rparr>) = 0 \<or> tintColor (warm_theme\<lparr>tintColor := []\<rparr>) = []"
    by simp
  show ?thesis
    using z e
      tint_identity_at_zero_strength_or_empty_color [OF z, THEN conjunct1,
        of "applyTint_boosts (\<lambda>_. \<lparr>h = 20, s = 1, l = 1, a = 1\<rparr>)" "\<lparr>h = 200, s = 0, l = 0, a = 1\<rparr>"]
      tint_identity_at_zero_strength_or_empty_color [OF e, THEN conjunct1,
        of "applyTint_boosts (\<lambda>_. \<lparr>h = 20, s = 1, l = 1, a = 1\<rparr>)" "\<lparr>h = 200, s = 0, l = 0, a = 1\<rparr>"]
    by simp
qed

text \<open>
  C4, as stated: on a miss the tint blender runs after the whole filter pipeline. With
  brightness 150, a white tint at strength 100 and a mid-grey colour, the colour
  modification of the sources ends at lightness 0.9 (tint first: 0.6, then brightness),
  the described order at lightness 0.8 (brightness first: 0.75, then tint).
\<close>

theorem tint_runs_before_filters:
  "l (modifyColor brightness_stages
        (warm_theme\<lparr>brightness := 150, tintColor := ''#ffffff'', tintStrength := 100\<rparr>) ''hsl(0, 0%, 50%)'')
     = 9 / 10
   \<and> l (described_modifyColor brightness_stages
        (warm_theme\<lparr>brightness := 150, tintColor := ''#ffffff'', tintStrength := 100\<rparr>) ''hsl(0, 0%, 50%)'')
     = 8 / 10
   \<and> fst (modifyColorWithCache brightness_stages
        (warm_theme\<lparr>brightness := 150, tintColor := ''#ffffff'', tintStrength := 100\<rparr>) ''hsl(0, 0%, 50%)''
        Map.empty)
     \<noteq> described_modifyColor brightness_stages
        (warm_theme\<lparr>brightness := 150, tintColor := ''#ffffff'', tintStrength := 100\<rparr>) ''hsl(0, 0%, 50%)''"
  by (simp add: modifyColorWithCache_def modifyColor_def described_modifyColor_def
      brightness_stages_def warm_theme_def tintStage_def applyTint_def Let_def clamp_def js_rem_def)

text \<open>
  C4, amended: on a miss the stages run in the order parse to HSL, mode-dependent
  transform, tint blender, conversion to RGB, brightness/contrast/sepia filters,
  serialization; the result is returned and stored under the key of the colour string
  and the theme. The tint comes after the mode-dependent transform and before the
  filters.
\<close>

theorem modifyColorWithCache_miss_order:
  assumes "cache (color, getCacheId theme) = None"
  shows "modifyColorWithCache st theme color cache =
     (serialize st (applyFilters st theme (hslToRGB st
        (tintStage (applyTint (parseToHSLWithCache st)) theme
           (modifyHSL st theme (parseToHSL st color))))),
      cache((color, getCacheId theme) \<mapsto>
        serialize st (applyFilters st theme (hslToRGB st
          (tintStage (applyTint (parseToHSLWithCache st)) theme
             (modifyHSL st theme (parseToHSL st color)))))))"
  using assms by (simp add: modifyColorWithCache_def modifyColor_def Let_def)

theorem modifyColorWithCache_miss_order_witness:
  "(Map.empty :: HSLA TransformCache)
      (''hsl(0, 0%, 50%)'', getCacheId (warm_theme\<lparr>tintColor := ''#ffffff''\<rparr>)) = None
   \<and> fst (modifyColorWithCache brightness_stages (warm_theme\<lparr>tintColor := ''#ffffff''\<rparr>)
          ''hsl(0, 0%, 50%)'' Map.empty)
     = \<lparr>h = 0, s = 0, l = 21 / 40, a = 1\<rparr>"
  using modifyColorWithCache_miss_order
    [of Map.empty "''hsl(0, 0%, 50%)''" "warm_theme\<lparr>tintColor := ''#ffffff''\<rparr>" brightness_stages]
  by (simp add: brightness_stages_def warm_theme_def tintStage_def applyTint_def Let_def
      clamp_def js_rem_def)

section \<open>Cache coherence\<close>

lemma getCacheId_inj: "getCacheId t1 = getCacheId t2 \<Longrightarrow> t1 = t2"
  by (cases t1; cases t2) (simp add: getCacheId_def)

lemma cache_sound_empty: "cache_sound st Map.empty"
  by (simp add: cache_sound_def)

lemma cache_sound_step:
  assumes "cache_sound st cache"
  shows "cache_sound st (snd (modifyColorWithCache st theme color cache))"
  using assms
  by (auto simp: cache_sound_def modifyColorWithCache_def Let_def
      dest: getCacheId_inj split: option.splits if_splits)

lemma cache_sound_run: "cache_sound st cache \<Longrightarrow> cache_sound st (run_queries st qs cache)"
  by (induction qs arbitrary: cache) (auto simp: cache_sound_step)

lemma cache_sound_result:
  "cache_sound st cache \<Longrightarrow> fst (modifyColorWithCache st theme color cache) = modifyColor st theme color"
  by (auto simp: cache_sound_def modifyColorWithCache_def Let_def split: option.splits)

lemma other_key_untouched:
  assumes "getCacheId t1 \<noteq> getCacheId t2"
  shows "snd (modifyColorWithCache st t1 color cache) (color, getCacheId t2) = cache (color, getCacheId t2)"
  using assms by (simp add: modifyColorWithCache_def Let_def split: option.splits)

text \<open>
  C5. Two theme configurations that differ in a field have different fingerprints. A
  query under one configuration leaves the cache slot of the same colour under any other
  configuration as it was; and after any sequence of queries from the empty cache, under
  whatever configurations, a query returns the colour a computation without cache gives
  for the configuration it is asked under.
\<close>

theorem cache_coherence:
  assumes "t1 \<noteq> t2"
  shows "getCacheId t1 \<noteq> getCacheId t2
     \<and> snd (modifyColorWithCache st t1 color cache) (color, getCacheId t2)
         = cache (color, getCacheId t2)
     \<and> fst (modifyColorWithCache st t2 color
              (run_queries st (qs @ [(t1, color)]) Map.empty))
         = modifyColor st t2 color"
proof -
  from assms have ne: "getCacheId t1 \<noteq> getCacheId t2"
    using getCacheId_inj by blast
  have "cache_sound st (run_queries st (qs @ [(t1, color)]) Map.empty)"
    by (intro cache_sound_run cache_sound_empty)
  then show ?thesis using ne by (simp add: other_key_untouched cache_sound_result)
qed

theorem cache_coherence_witness:
  "warm_theme \<noteq> warm_theme\<lparr>tintStrength := 30\<rparr>
   \<and> getCacheId warm_theme \<noteq> getCacheId (warm_theme\<lparr>tintStrength := 30\<rparr>)
   \<and> fst (modifyColorWithCache brightness_stages (warm_theme\<lparr>tintStrength := 30\<rparr>) ''hsl(0, 0%, 50%)''
            (run_queries brightness_stages ([] @ [(warm_theme, ''hsl(0, 0%, 50%)'')]) Map.empty))
       = modifyColor brightness_stages (warm_theme\<lparr>tintStrength := 30\<rparr>) ''hsl(0, 0%, 50%)''"
proof -
  have d: "warm_theme \<noteq> warm_theme\<lparr>tintStrength := 30\<rparr>"
    by (simp add: warm_theme_def)
  show ?thesis
    using d cache_coherence [OF d, of brightness_stages "''hsl(0, 0%, 50%)''" Map.empty "[]"]
    by simp
qed
section \<open>The brightness and contrast controls\<close>





end
